theory Spec2Isabelle
  imports Main "HOL-Library.Sublist"
begin

section \<open>Exceptions\<close>

datatype error = KeyError string | KeyboardInterrupt | BackendError string | AttributeError
  | ValueError | OverflowError

section \<open>Timestamps\<close>

text \<open>
  A Python \<^verbatim>\<open>datetime\<close>: the wall-clock fields, the attached time zone and the
  \<^verbatim>\<open>fold\<close> that tells the two readings of a repeated wall-clock time apart. The program
  only ever reads a zone through \<^verbatim>\<open>isoformat()\<close>, which prints its UTC offset, so a
  zone is its offset from UTC in seconds; \<open>None\<close> is a naive datetime (no \<^verbatim>\<open>tzinfo\<close>).
\<close>

record datetime =
  year :: nat
  month :: nat
  day :: nat
  hour :: nat
  minute :: nat
  second :: nat
  microsecond :: nat
  tzinfo :: "int option"
  fold :: nat

text \<open>Decimal rendering, as \<^verbatim>\<open>"%0wd" % n\<close> does it for a natural number.\<close>

definition digit :: "nat \<Rightarrow> char" where
  "digit d = ''0123456789'' ! (d mod 10)"

fun dec :: "nat \<Rightarrow> string" where
  "dec n = (if n < 10 then [digit n] else dec (n div 10) @ [digit (n mod 10)])"

declare dec.simps [simp del]

definition zero_pad :: "nat \<Rightarrow> nat \<Rightarrow> string" where
  "zero_pad w n = replicate (w - length (dec n)) (CHR ''0'') @ dec n"

text \<open>
  \<^verbatim>\<open>datetime.isoformat()\<close> of the standard library: date, \<^verbatim>\<open>T\<close>, time, the microseconds
  when they are not zero, and for an aware datetime the offset as \<^verbatim>\<open>+HH:MM\<close>, with
  the seconds when they are not zero.
\<close>

definition format_offset :: "int \<Rightarrow> string" where
  "format_offset off =
     (let sign = (if off < 0 then ''-'' else ''+'');
          a = nat \<bar>off\<bar>;
          hh = a div 3600;
          mm = (a mod 3600) div 60;
          ss = a mod 60
      in sign @ zero_pad 2 hh @ '':'' @ zero_pad 2 mm
         @ (if ss \<noteq> 0 then '':'' @ zero_pad 2 ss else []))"

definition isoformat :: "datetime \<Rightarrow> string" where
  "isoformat d =
     zero_pad 4 (year d) @ ''-'' @ zero_pad 2 (month d) @ ''-'' @ zero_pad 2 (day d)
     @ ''T'' @ zero_pad 2 (hour d) @ '':'' @ zero_pad 2 (minute d) @ '':'' @ zero_pad 2 (second d)
     @ (if microsecond d \<noteq> 0 then ''.'' @ zero_pad 6 (microsecond d) else [])
     @ (case tzinfo d of None \<Rightarrow> [] | Some off \<Rightarrow> format_offset off)"

section \<open>The calendar\<close>



definition DAYS_IN_MONTH :: "int list" where
  "DAYS_IN_MONTH = [-1, 31, 28, 31, 30, 31, 30, 31, 31, 30, 31, 30, 31]"

definition DAYS_BEFORE_MONTH :: "int list" where
  "DAYS_BEFORE_MONTH = [-1, 0, 31, 59, 90, 120, 151, 181, 212, 243, 273, 304, 334]"

definition is_leap :: "int \<Rightarrow> bool" where
  "is_leap y = (y mod 4 = 0 \<and> (y mod 100 \<noteq> 0 \<or> y mod 400 = 0))"

definition days_before_year :: "int \<Rightarrow> int" where
  "days_before_year y = (let y = y - 1 in y * 365 + y div 4 - y div 100 + y div 400)"


definition days_before_month :: "int \<Rightarrow> int \<Rightarrow> int" where
  "days_before_month y m = DAYS_BEFORE_MONTH ! nat m + (if m > 2 \<and> is_leap y then 1 else 0)"

definition ymd2ord :: "int \<Rightarrow> int \<Rightarrow> int \<Rightarrow> int" where
  "ymd2ord y m d = days_before_year y + days_before_month y m + d"

definition DI400Y :: int where
  "DI400Y = 146097"

definition DI100Y :: int where
  "DI100Y = 36524"

definition DI4Y :: int where
  "DI4Y = 1461"

text \<open>
  The month and the day of the \<open>n\<close>-th day of a year, counted from 0: the last part of
  \<^verbatim>\<open>_ord2ymd\<close>, with its estimate of the month that is exact or one too large.
\<close>

definition month_day :: "bool \<Rightarrow> int \<Rightarrow> int \<times> int" where
  "month_day leapyear n =
     (let m = (n + 50) div 32;
          preceding = DAYS_BEFORE_MONTH ! nat m + (if m > 2 \<and> leapyear then 1 else 0)
      in if preceding > n
         then (let m = m - 1;
                   preceding = preceding
                     - (DAYS_IN_MONTH ! nat m + (if m = 2 \<and> leapyear then 1 else 0))
               in (m, n - preceding + 1))
         else (m, n - preceding + 1))"

definition ord2ymd :: "int \<Rightarrow> int \<times> int \<times> int" where
  "ord2ymd n =
     (let n = n - 1;
          n400 = n div DI400Y; n = n mod DI400Y;
          y = n400 * 400 + 1;
          n100 = n div DI100Y; n = n mod DI100Y;
          n4 = n div DI4Y; n = n mod DI4Y;
          n1 = n div 365; n = n mod 365;
          y = y + n100 * 100 + n4 * 4 + n1
      in if n1 = 4 \<or> n100 = 4 then (y - 1, 12, 31)
         else (let leapyear = (n1 = 3 \<and> (n4 \<noteq> 24 \<or> n100 = 3));
                   (m, d) = month_day leapyear n
               in (y, m, d)))"


section \<open>Local time\<close>

text \<open>
  Time is counted in seconds, as the \<^verbatim>\<open>datetime\<close> module counts it inside: the second
  \<open>ordinal * 86400 + \<dots>\<close> of a wall-clock time (\<^verbatim>\<open>utc_to_seconds\<close>), which for a time in
  UTC is the POSIX timestamp plus \<open>EPOCH\<close>. The years 1 to 9999 are the seconds from
  \<open>MIN_SECONDS\<close> up to, not including, \<open>MAX_SECONDS\<close>.
\<close>

definition EPOCH :: int where
  "EPOCH = 719163 * 86400"

definition MIN_SECONDS :: int where
  "MIN_SECONDS = 86400"

definition MAX_SECONDS :: int where
  "MAX_SECONDS = 3652060 * 86400"

definition to_seconds :: "datetime \<Rightarrow> int" where
  "to_seconds ts =
     ((ymd2ord (int (year ts)) (int (month ts)) (int (day ts)) * 24 + int (hour ts)) * 60
        + int (minute ts)) * 60 + int (second ts)"

text \<open>The datetime of a second, with the given microseconds and zone; its \<^verbatim>\<open>fold\<close> is 0.\<close>

definition of_seconds :: "int \<Rightarrow> nat \<Rightarrow> int option \<Rightarrow> datetime" where
  "of_seconds v us tz =
     (let (y, m, d) = ord2ymd (v div 86400);
          r = v mod 86400
      in \<lparr>year = nat y, month = nat m, day = nat d,
          hour = nat (r div 3600), minute = nat (r mod 3600 div 60), second = nat (r mod 60),
          microsecond = us, tzinfo = tz, fold = 0\<rparr>)"

text \<open>
  The time zone of the process is what the platform's \<^verbatim>\<open>localtime\<close> says: for a POSIX
  timestamp, the offset from UTC in force then (\<^verbatim>\<open>tm_gmtoff\<close>, in seconds).
\<close>

type_synonym zone = "int \<Rightarrow> int"

text \<open>
  \<^verbatim>\<open>local(u)\<close> of the \<^verbatim>\<open>datetime\<close> module: the wall-clock time the zone shows at the
  instant \<open>u\<close>. It raises \<^verbatim>\<open>ValueError\<close> when that time is not in the years 1 to 9999.
\<close>

definition local_seconds :: "zone \<Rightarrow> int \<Rightarrow> error + int" where
  "local_seconds z u =
     (let v = u + z (u - EPOCH)
      in if v < MIN_SECONDS \<or> MAX_SECONDS \<le> v then Inl ValueError else Inr v)"

text \<open>
  \<^verbatim>\<open>local_to_seconds\<close>: the instant at which the zone shows the wall-clock time \<open>t\<close>. It
  probes the offset \<open>a\<close> in force around \<open>t\<close> and, a day earlier (a day later for
  \<^verbatim>\<open>fold=1\<close>), the offset \<open>b\<close>. A time that the zone shows twice is resolved by
  \<^verbatim>\<open>fold\<close>; for a time that it never shows (a gap) neither \<open>t - a\<close> nor \<open>t - b\<close> is a
  solution, and the later of the two (the earlier for \<^verbatim>\<open>fold=1\<close>) is returned.
\<close>

definition max_fold_seconds :: int where
  "max_fold_seconds = 24 * 3600"

definition local_to_seconds_end :: "zone \<Rightarrow> int \<Rightarrow> nat \<Rightarrow> int \<Rightarrow> int \<Rightarrow> int \<Rightarrow> error + int" where
  "local_to_seconds_end z t fold' u1 t1 b =
     (let u2 = t - b
      in case local_seconds z u2 of
           Inl e \<Rightarrow> Inl e
         | Inr t2 \<Rightarrow>
             if t2 = t then Inr u2
             else if t1 = t then Inr u1
             else Inr (if fold' \<noteq> 0 then min u1 u2 else max u1 u2))"

definition local_to_seconds :: "zone \<Rightarrow> int \<Rightarrow> nat \<Rightarrow> error + int" where
  "local_to_seconds z t fold' =
     (case local_seconds z t of
        Inl e \<Rightarrow> Inl e
      | Inr lt \<Rightarrow>
          (let a = lt - t;
               u1 = t - a
           in case local_seconds z u1 of
                Inl e \<Rightarrow> Inl e
              | Inr t1 \<Rightarrow>
                  if t1 = t
                  then (let u2 = (if fold' \<noteq> 0 then u1 + max_fold_seconds
                                  else u1 - max_fold_seconds)
                        in case local_seconds z u2 of
                             Inl e \<Rightarrow> Inl e
                           | Inr lt \<Rightarrow>
                               (let b = lt - u2
                                in if a = b then Inr u1
                                   else local_to_seconds_end z t fold' u1 t1 b))
                  else local_to_seconds_end z t fold' u1 t1 (t1 - u1)))"

text \<open>
  The fixed-offset \<^verbatim>\<open>timezone\<close> of an offset: its constructor raises \<^verbatim>\<open>ValueError\<close>
  unless the offset is strictly between minus and plus 24 hours.
\<close>

definition new_timezone :: "int \<Rightarrow> error + int" where
  "new_timezone off = (if off \<le> - 86400 \<or> 86400 \<le> off then Inl ValueError else Inr off)"

text \<open>
  \<^verbatim>\<open>ts.astimezone()\<close> at a naive \<open>ts\<close>, the only way the program calls it. The standard
  library takes \<open>ts\<close> as local time: it finds the instant of \<open>ts\<close> with
  \<^verbatim>\<open>local_to_seconds\<close>, subtracts the offset in force at that instant, which gives a
  time in UTC (\<^verbatim>\<open>OverflowError\<close> when it leaves the years 1 to 9999), and shows that
  time in the offset in force at it. The result has the wall-clock fields of \<open>ts\<close>
  when the two offsets agree, which they do unless \<open>ts\<close> is in a gap of the zone.
\<close>

definition astimezone :: "zone \<Rightarrow> datetime \<Rightarrow> error + datetime" where
  "astimezone z ts =
     (case local_to_seconds z (to_seconds ts) (fold ts) of
        Inl e \<Rightarrow> Inl e
      | Inr seconds \<Rightarrow>
          (case new_timezone (z (seconds - EPOCH)) of
             Inl e \<Rightarrow> Inl e
           | Inr offset \<Rightarrow>
               (let utc = to_seconds ts - offset
                in if utc < MIN_SECONDS \<or> MAX_SECONDS \<le> utc then Inl OverflowError
                   else (case new_timezone (z (utc - EPOCH)) of
                           Inl e \<Rightarrow> Inl e
                         | Inr tz \<Rightarrow>
                             (let v = utc + tz
                              in if v < MIN_SECONDS \<or> MAX_SECONDS \<le> v then Inl OverflowError
                                 else Inr (of_seconds v (microsecond ts) (Some tz)))))))"

text \<open>\<^verbatim>\<open>pytz.UTC\<close>: offset zero.\<close>

definition UTC :: int where
  "UTC = 0"

section \<open>The query builder\<close>

text \<open>\<^verbatim>\<open>sep.join(xs)\<close>.\<close>

fun str_join :: "string \<Rightarrow> string list \<Rightarrow> string" where
  "str_join sep [] = []"
| "str_join sep [x] = x"
| "str_join sep (x # y # ys) = x @ sep @ str_join sep (y # ys)"

definition instance_clause :: "string \<Rightarrow> string" where
  \<open>instance_clause instance_name = ''resource.labels.instance_id="'' @ instance_name @ ''"''\<close>

text \<open>
  \<open>filter_clauses\<close> is the list \<^verbatim>\<open>clauses\<close> of \<^verbatim>\<open>make_filter\<close> when it reaches its
  \<^verbatim>\<open>return\<close>. A list is true in Python when it is not empty, and a datetime is always
  true, so \<^verbatim>\<open>if to_date:\<close> asks whether the bound is there.
\<close>

definition filter_clauses :: "string list \<Rightarrow> datetime \<Rightarrow> datetime option \<Rightarrow> string list" where
  \<open>filter_clauses machines from_date to_date =
     (let clauses = [''resource.type="gce_instance"''];
          clauses = (if machines \<noteq> []
                     then clauses @ [''('' @ str_join '' OR '' (map instance_clause machines) @ '')'']
                     else clauses);
          clauses = clauses @ [''timestamp >= "'' @ isoformat from_date @ ''"''];
          clauses = (case to_date of
                       Some t \<Rightarrow> clauses @ [''timestamp <= "'' @ isoformat t @ ''"'']
                     | None \<Rightarrow> clauses)
      in clauses)\<close>

definition make_filter :: "string list \<Rightarrow> datetime \<Rightarrow> datetime option \<Rightarrow> string" where
  "make_filter machines from_date to_date = str_join '' AND '' (filter_clauses machines from_date to_date)"

section \<open>Time zone adjustment\<close>

definition adjust_tz :: "zone \<Rightarrow> datetime option \<Rightarrow> bool \<Rightarrow> error + datetime option" where
  "adjust_tz z ts utc =
     (case ts of
        None \<Rightarrow> Inr None
      | Some t \<Rightarrow>
          if tzinfo t \<noteq> None then Inr (Some t)
          else if utc then Inr (Some (t\<lparr>tzinfo := Some UTC\<rparr>))
          else (case astimezone z t of
                  Inl e \<Rightarrow> Inl e
                | Inr r \<Rightarrow> Inr (Some r)))"

section \<open>Log entries and formatters\<close>

text \<open>
  A log entry is modelled by the dictionary its \<^verbatim>\<open>to_api_repr()\<close> returns, restricted
  to the keys the program reads; a key the dictionary lacks is \<open>None\<close>. The values
  under \<^verbatim>\<open>timestamp\<close>, \<^verbatim>\<open>severity\<close>, \<^verbatim>\<open>textPayload\<close> and the labels are strings.
\<close>

record api_resource =
  labels :: "(string \<rightharpoonup> string) option"

record LogEntry =
  resource :: "api_resource option"
  timestamp :: "string option"
  severity :: "string option"
  textPayload :: "string option"

text \<open>\<^verbatim>\<open>d[key]\<close>: a missing key raises \<^verbatim>\<open>KeyError\<close>.\<close>

definition getitem :: "string \<Rightarrow> 'a option \<Rightarrow> error + 'a" where
  "getitem key v = (case v of None \<Rightarrow> Inl (KeyError key) | Some x \<Rightarrow> Inr x)"

text \<open>The constants of \<^verbatim>\<open>colorama\<close> the program uses: ANSI escape sequences.\<close>

definition ESC :: char where
  "ESC = CHR 0x1B"

definition LIGHTGREEN_EX :: string where
  "LIGHTGREEN_EX = ESC # ''[92m''"

definition LIGHTCYAN_EX :: string where
  "LIGHTCYAN_EX = ESC # ''[96m''"

definition LIGHTRED_EX :: string where
  "LIGHTRED_EX = ESC # ''[91m''"

definition RESET :: string where
  "RESET = ESC # ''[39m''"

definition BRIGHT :: string where
  "BRIGHT = ESC # ''[1m''"

definition RESET_ALL :: string where
  "RESET_ALL = ESC # ''[0m''"

text \<open>
  What a formatter hands to \<^verbatim>\<open>print\<close>: \<^verbatim>\<open>line_format\<close> returns a string,
  \<^verbatim>\<open>api_format\<close> the dictionary itself.
\<close>

datatype printable = Text string | Repr LogEntry

definition api_format :: "LogEntry \<Rightarrow> error + printable" where
  "api_format response = Inr (Repr response)"

definition line_format :: "LogEntry \<Rightarrow> error + printable" where
  "line_format response =
     (let json = response in
      (case getitem ''resource'' (resource json) of Inl e \<Rightarrow> Inl e | Inr res \<Rightarrow>
      (case getitem ''labels'' (labels res) of Inl e \<Rightarrow> Inl e | Inr lbls \<Rightarrow>
      (case getitem ''instance_id'' (lbls ''instance_id'') of Inl e \<Rightarrow> Inl e | Inr machine \<Rightarrow>
      (case getitem ''timestamp'' (timestamp json) of Inl e \<Rightarrow> Inl e | Inr ts \<Rightarrow>
      (case getitem ''severity'' (severity json) of Inl e \<Rightarrow> Inl e | Inr sev \<Rightarrow>
      (case getitem ''textPayload'' (textPayload json) of Inl e \<Rightarrow> Inl e | Inr payload \<Rightarrow>
        Inr (Text (LIGHTGREEN_EX @ machine @ LIGHTCYAN_EX
                   @ '' ['' @ ts @ ''] '' @ BRIGHT @ ''('' @ sev @ ''): ''
                   @ RESET_ALL @ payload)))))))))"

section \<open>Output\<close>

definition newline :: char where
  "newline = CHR 0x0A"

text \<open>
  \<^verbatim>\<open>print(x, file=f)\<close> writes \<^verbatim>\<open>str(x)\<close> and a newline to \<open>f\<close>; a stream is the text
  written to it so far. Python's \<^verbatim>\<open>str\<close> of a dictionary is the parameter \<open>dict_str\<close>.
\<close>

definition py_str :: "(LogEntry \<Rightarrow> string) \<Rightarrow> printable \<Rightarrow> string" where
  "py_str dict_str x = (case x of Text s \<Rightarrow> s | Repr d \<Rightarrow> dict_str d)"

definition print :: "(LogEntry \<Rightarrow> string) \<Rightarrow> printable \<Rightarrow> string \<Rightarrow> string" where
  "print dict_str x file = file @ py_str dict_str x @ [newline]"

section \<open>The bounded query\<close>

definition PAGE_SIZE :: nat where
  "PAGE_SIZE = 100"

definition POLL_INTERVAL :: nat where
  "POLL_INTERVAL = 1"

text \<open>
  Iterating \<^verbatim>\<open>client.list_entries(filter_, page_size)\<close> either hands over the next
  entry or raises: the backend fails, or the interrupt signal arrives, which Python
  raises as \<^verbatim>\<open>KeyboardInterrupt\<close> in the main thread wherever it is (the program
  installs no signal handler). A query is the sequence of these events; the entries
  behind a \<open>Raise\<close> are the ones the query had still to hand over.
\<close>

datatype fetch = Entry LogEntry | Raise error

type_synonym Client = "string \<Rightarrow> nat \<Rightarrow> fetch list"

text \<open>The \<^verbatim>\<open>for\<close> loop of \<^verbatim>\<open>print_logs\<close>, with its local \<^verbatim>\<open>empty\<close> (here \<open>empty'\<close>) and the stream.\<close>

fun print_logs_loop ::
  "(LogEntry \<Rightarrow> error + printable) \<Rightarrow> (LogEntry \<Rightarrow> string) \<Rightarrow> fetch list \<Rightarrow> bool \<Rightarrow> string
   \<Rightarrow> (error + bool) \<times> string" where
  "print_logs_loop formatter dict_str [] empty' outfile = (Inr empty', outfile)"
| "print_logs_loop formatter dict_str (Raise e # rest) empty' outfile = (Inl e, outfile)"
| "print_logs_loop formatter dict_str (Entry entry # rest) empty' outfile =
     (case formatter entry of
        Inl e \<Rightarrow> (Inl e, outfile)
      | Inr line \<Rightarrow> print_logs_loop formatter dict_str rest False (print dict_str line outfile))"

definition print_logs ::
  "Client \<Rightarrow> string list \<Rightarrow> datetime \<Rightarrow> datetime option \<Rightarrow> (LogEntry \<Rightarrow> error + printable)
   \<Rightarrow> (LogEntry \<Rightarrow> string) \<Rightarrow> string \<Rightarrow> (error + bool) \<times> string" where
  "print_logs client machines from_date to_date formatter dict_str outfile =
     print_logs_loop formatter dict_str
       (client (make_filter machines from_date to_date) PAGE_SIZE) True outfile"

section \<open>The tail loop\<close>

text \<open>
  What the outside world does during one iteration of the loop: the naive local time
  \<^verbatim>\<open>datetime.now()\<close> returns, how the client answers a query issued then, and whether
  \<^verbatim>\<open>time.sleep\<close> returns or is cut short by the interrupt.
\<close>

record moment =
  clock :: datetime
  backend :: Client
  sleep :: "nat \<Rightarrow> error option"

record tail_state =
  low_watermark :: datetime
  sink :: string

text \<open>The body of \<^verbatim>\<open>while True\<close>; \<open>Some e\<close> is the exception that leaves it.\<close>

definition tail_body ::
  "zone \<Rightarrow> string list \<Rightarrow> (LogEntry \<Rightarrow> error + printable) \<Rightarrow> (LogEntry \<Rightarrow> string)
   \<Rightarrow> moment \<Rightarrow> tail_state \<Rightarrow> error option \<times> tail_state" where
  "tail_body z machines formatter dict_str m s =
     (case astimezone z (clock m) of
        Inl e \<Rightarrow> (Some e, s)
      | Inr high_watermark \<Rightarrow>
          (case print_logs (backend m) machines (low_watermark s) (Some high_watermark)
                  formatter dict_str (sink s) of
             (Inl e, written) \<Rightarrow> (Some e, s\<lparr>sink := written\<rparr>)
           | (Inr empty', written) \<Rightarrow>
               (let s = s\<lparr>sink := written\<rparr>;
                    s = (if \<not> empty' then s\<lparr>low_watermark := high_watermark\<rparr> else s)
                in case sleep m POLL_INTERVAL of
                     Some e \<Rightarrow> (Some e, s)
                   | None \<Rightarrow> (None, s))))"

text \<open>
  The loop runs one iteration per moment of the trace. \<open>Looping\<close> says that the
  trace ended with the loop still going; \<open>Stopped\<close> that an exception left it.
\<close>

datatype run = Looping tail_state | Stopped error tail_state

fun tail_loop ::
  "zone \<Rightarrow> string list \<Rightarrow> (LogEntry \<Rightarrow> error + printable) \<Rightarrow> (LogEntry \<Rightarrow> string)
   \<Rightarrow> moment list \<Rightarrow> tail_state \<Rightarrow> run" where
  "tail_loop z machines formatter dict_str [] s = Looping s"
| "tail_loop z machines formatter dict_str (m # trace) s =
     (case tail_body z machines formatter dict_str m s of
        (Some e, s') \<Rightarrow> Stopped e s'
      | (None, s') \<Rightarrow> tail_loop z machines formatter dict_str trace s')"

text \<open>
  \<^verbatim>\<open>tail\<close>: the loop inside \<^verbatim>\<open>try\<close>, and the handler of \<^verbatim>\<open>KeyboardInterrupt\<close>. The
  result is \<open>None\<close> while the loop is going, else the exception that leaves \<^verbatim>\<open>tail\<close>
  (if any), the output stream and the error stream.
\<close>

definition tail ::
  "zone \<Rightarrow> moment list \<Rightarrow> string list \<Rightarrow> datetime \<Rightarrow> (LogEntry \<Rightarrow> error + printable)
   \<Rightarrow> (LogEntry \<Rightarrow> string) \<Rightarrow> string \<Rightarrow> string \<Rightarrow> (error option \<times> string \<times> string) option" where
  "tail z trace machines from_date formatter dict_str outfile stderr =
     (case tail_loop z machines formatter dict_str trace
             \<lparr>low_watermark = from_date, sink = outfile\<rparr> of
        Looping s \<Rightarrow> None
      | Stopped e s \<Rightarrow>
          if e = KeyboardInterrupt
          then Some (None, sink s,
                     print dict_str (Text (LIGHTRED_EX @ ''CTRL+C pressed. Aborting.'' @ RESET)) stderr)
          else Some (Some e, sink s, stderr))"

section \<open>The program\<close>

record args =
  args_machine :: "string list"
  args_from_date :: datetime
  args_to_date :: "datetime option"
  args_tail :: bool
  args_utc :: bool
  args_to_file :: "string option"
  args_api :: bool

record streams =
  sys_stdout :: string
  sys_stderr :: string
  files :: "string \<rightharpoonup> string"

text \<open>
  \<^verbatim>\<open>main\<close>, with \<^verbatim>\<open>output_file\<close> written out: the sink is the standard output, or a
  file opened for writing (so empty) and kept under its path when \<^verbatim>\<open>with\<close> is left.
  The two bounds are adjusted first, the lower one before the upper one; an
  exception raised there leaves \<^verbatim>\<open>main\<close> before the sink is opened. Peek mode asks the
  client once, in the first moment of the trace. The result is \<open>None\<close> while the
  program runs, else the exception that leaves \<^verbatim>\<open>main\<close> (if any) and the streams.
\<close>

definition main ::
  "zone \<Rightarrow> (LogEntry \<Rightarrow> string) \<Rightarrow> moment list \<Rightarrow> args \<Rightarrow> streams
   \<Rightarrow> (error option \<times> streams) option" where
  "main z dict_str trace args io =
     (let formatter = (if args_api args then api_format else line_format)
      in case adjust_tz z (Some (args_from_date args)) (args_utc args) of
           Inl e \<Rightarrow> Some (Some e, io)
         | Inr from_date \<Rightarrow>
      (case adjust_tz z (args_to_date args) (args_utc args) of
           Inl e \<Rightarrow> Some (Some e, io)
         | Inr to_date \<Rightarrow>
      (let outfile = (case args_to_file args of None \<Rightarrow> sys_stdout io | Some path \<Rightarrow> []);
           leave = (\<lambda>written err.
                      case args_to_file args of
                        None \<Rightarrow> io\<lparr>sys_stdout := written, sys_stderr := err\<rparr>
                      | Some path \<Rightarrow> io\<lparr>sys_stderr := err, files := (files io)(path \<mapsto> written)\<rparr>)
       in case from_date of
            None \<Rightarrow> Some (Some AttributeError, leave outfile (sys_stderr io))
          | Some from_date \<Rightarrow>
              if args_tail args
              then (case tail z trace (args_machine args) from_date formatter dict_str
                           outfile (sys_stderr io) of
                      None \<Rightarrow> None
                    | Some (r, written, err) \<Rightarrow> Some (r, leave written err))
              else (case trace of
                      [] \<Rightarrow> None
                    | m # _ \<Rightarrow>
                        (case print_logs (backend m) (args_machine args) from_date to_date
                                formatter dict_str outfile of
                           (Inl e, written) \<Rightarrow> Some (Some e, leave written (sys_stderr io))
                         | (Inr _, written) \<Rightarrow> Some (None, leave written (sys_stderr io)))))))"

text \<open>
  The exit status of the process: 0 when \<^verbatim>\<open>main\<close> returns, not 0 when an exception
  leaves it.
\<close>

definition exit_status :: "error option \<Rightarrow> nat" where
  "exit_status r = (case r of None \<Rightarrow> 0 | Some e \<Rightarrow> 1)"

section \<open>Example inputs\<close>

definition ex_from :: datetime where
  "ex_from = \<lparr>year = 2023, month = 1, day = 1, hour = 0, minute = 0, second = 0,
              microsecond = 0, tzinfo = Some 0, fold = 0\<rparr>"

definition ex_to :: datetime where
  "ex_to = \<lparr>year = 2023, month = 1, day = 1, hour = 1, minute = 0, second = 0,
            microsecond = 0, tzinfo = Some 0, fold = 0\<rparr>"

definition ex_naive :: datetime where
  "ex_naive = \<lparr>year = 2023, month = 1, day = 1, hour = 0, minute = 30, second = 0,
               microsecond = 0, tzinfo = None, fold = 0\<rparr>"

text \<open>A zone that is one hour ahead of UTC all the time.\<close>

definition ex_local :: zone where
  "ex_local t = 3600"

text \<open>The high watermark captured at the wall-clock time \<open>ex_naive\<close> in that zone.\<close>

definition ex_high :: datetime where
  "ex_high = ex_naive\<lparr>tzinfo := Some 3600\<rparr>"






definition ex_entry :: LogEntry where
  "ex_entry = \<lparr>resource = Some \<lparr>labels = Some [''instance_id'' \<mapsto> ''vm-1'']\<rparr>,
               timestamp = Some ''2023-01-01T00:00:05Z'', severity = Some ''INFO'',
               textPayload = Some ''hello world''\<rparr>"


definition ex_entry2 :: LogEntry where
  "ex_entry2 = ex_entry\<lparr>textPayload := Some ''bye''\<rparr>"

definition ex_dict_str :: "LogEntry \<Rightarrow> string" where
  "ex_dict_str d = ''{}''"

definition no_entries :: Client where
  "no_entries flt page_size = []"

definition one_entry :: Client where
  "one_entry flt page_size = [Entry ex_entry]"


definition interrupted_query :: Client where
  "interrupted_query flt page_size = [Entry ex_entry, Raise KeyboardInterrupt, Entry ex_entry2]"

definition never_interrupted :: "nat \<Rightarrow> error option" where
  "never_interrupted secs = None"

definition interrupted_sleep :: "nat \<Rightarrow> error option" where
  "interrupted_sleep secs = Some KeyboardInterrupt"

definition quiet_moment :: moment where
  "quiet_moment = \<lparr>clock = ex_naive, backend = no_entries, sleep = never_interrupted\<rparr>"

definition busy_moment :: moment where
  "busy_moment = \<lparr>clock = ex_naive, backend = one_entry, sleep = never_interrupted\<rparr>"

definition interrupted_moment :: moment where
  "interrupted_moment = \<lparr>clock = ex_naive, backend = interrupted_query, sleep = never_interrupted\<rparr>"

definition ex_state :: tail_state where
  "ex_state = \<lparr>low_watermark = ex_from, sink = []\<rparr>"

definition ex_line :: string where
  "ex_line = LIGHTGREEN_EX @ ''vm-1'' @ LIGHTCYAN_EX @ '' [2023-01-01T00:00:05Z] '' @ BRIGHT
             @ ''(INFO): '' @ RESET_ALL @ ''hello world''"

definition interrupted_nap :: moment where
  "interrupted_nap = \<lparr>clock = ex_naive, backend = no_entries, sleep = interrupted_sleep\<rparr>"

definition late_interrupt :: moment where
  "late_interrupt = \<lparr>clock = ex_naive, backend = one_entry, sleep = interrupted_sleep\<rparr>"



definition peek_args :: args where
  "peek_args = \<lparr>args_machine = [''vm-1''], args_from_date = ex_naive, args_to_date = None,
                args_tail = False, args_utc = True, args_to_file = None, args_api = False\<rparr>"

definition tail_args :: args where
  "tail_args = peek_args\<lparr>args_tail := True\<rparr>"

definition ex_io :: streams where
  "ex_io = \<lparr>sys_stdout = [], sys_stderr = [], files = Map.empty\<rparr>"

section \<open>The visible text of a line\<close>

text \<open>
  What a terminal shows of a text that carries the sequences above: each of them is a
  control sequence that runs from \<open>ESC\<close> to its final \<^verbatim>\<open>m\<close>, and the terminal consumes
  it. \<open>visible_text\<close> is the text with these sequences taken out; it is the reading of
  ``visible text'' against which the shape of a formatted line is stated.
\<close>

fun visible_text :: "string \<Rightarrow> string" and in_escape :: "string \<Rightarrow> string" where
  "visible_text [] = []"
| "visible_text (c # cs) = (if c = ESC then in_escape cs else c # visible_text cs)"
| "in_escape [] = []"
| "in_escape (c # cs) = (if c = CHR ''m'' then visible_text cs else in_escape cs)"

text \<open>An entry whose text payload spans two lines.\<close>

definition ex_traceback_entry :: LogEntry where
  "ex_traceback_entry = ex_entry\<lparr>textPayload := Some (''Traceback:'' @ [newline] @ ''  File x'')\<rparr>"

section \<open>Facts about the loops\<close>

lemma print_logs_loop_returns:
  "fst (print_logs_loop formatter dict_str q e out) = Inr b \<Longrightarrow> b = (e \<and> q = [])"
proof (induction formatter dict_str q e out rule: print_logs_loop.induct)
  case (1 formatter dict_str empty' outfile)
  then show ?case by simp
next
  case (2 formatter dict_str e rest empty' outfile)
  then show ?case by simp
next
  case (3 formatter dict_str entry rest empty' outfile)
  then show ?case by (cases "formatter entry") auto
qed

lemma print_logs_loop_entries:
  "\<forall>e\<in>set es. formatter e = Inr (p e) \<Longrightarrow>
   print_logs_loop formatter dict_str (map Entry es) e0 out =
     (Inr (e0 \<and> es = []), out @ concat (map (\<lambda>e. py_str dict_str (p e) @ [newline]) es))"
  by (induction es arbitrary: e0 out) (auto simp: print_def)

lemma print_logs_loop_raise:
  "\<forall>e\<in>set es. formatter e = Inr (p e) \<Longrightarrow>
   print_logs_loop formatter dict_str (map Entry es @ Raise err # rest) e0 out =
     (Inl err, out @ concat (map (\<lambda>e. py_str dict_str (p e) @ [newline]) es))"
  by (induction es arbitrary: e0 out) (auto simp: print_def)

lemma tail_loop_append:
  "tail_loop lo ms fmt ds (xs @ ys) s =
     (case tail_loop lo ms fmt ds xs s of
        Looping s' \<Rightarrow> tail_loop lo ms fmt ds ys s'
      | Stopped e s' \<Rightarrow> Stopped e s')"
  by (induction xs arbitrary: s) (auto split: prod.splits option.splits)

lemma line_format_ex_entry: "line_format ex_entry = Inr (Text ex_line)"
  by (simp add: line_format_def getitem_def ex_entry_def ex_line_def)

lemma astimezone_ex_naive: "astimezone ex_local ex_naive = Inr ex_high"
  by code_simp

lemma tail_body_busy:
  "tail_body ex_local [] line_format ex_dict_str busy_moment ex_state =
     (None, \<lparr>low_watermark = ex_high, sink = ex_line @ [newline]\<rparr>)"
  by (simp add: tail_body_def print_logs_def busy_moment_def one_entry_def line_format_ex_entry
      print_def py_str_def never_interrupted_def ex_state_def astimezone_ex_naive)

lemma tail_body_quiet:
  "tail_body ex_local [] line_format ex_dict_str quiet_moment ex_state = (None, ex_state)"
  by (simp add: tail_body_def print_logs_def quiet_moment_def no_entries_def
      never_interrupted_def ex_state_def astimezone_ex_naive)

section \<open>The watermark of the tail loop\<close>

text \<open>
  Claim C1. Let the first \<open>k\<close> iterations of the tail loop (the moments \<open>pre\<close>) leave the
  loop going in state \<open>s\<close>, so that iteration \<open>k\<close> runs with lower bound
  \<open>low_watermark s\<close>, and let iteration \<open>k\<close> leave the loop going in state \<open>s'\<close>, the
  state iteration \<open>k + 1\<close> starts in. Then iteration \<open>k\<close> captured a high watermark
  \<open>hi\<close> (\<^verbatim>\<open>datetime.now().astimezone()\<close> returned it), and: if the query of iteration
  \<open>k\<close> gave no record, the lower bound of iteration \<open>k + 1\<close> is that of iteration \<open>k\<close>;
  if it gave at least one, it is the high watermark of iteration \<open>k\<close>.
\<close>

theorem tail_watermark_step:
  assumes "tail_loop lo ms fmt ds pre s0 = Looping s"
    and "tail_loop lo ms fmt ds (pre @ [m]) s0 = Looping s'"
  shows "\<exists>hi. astimezone lo (clock m) = Inr hi
           \<and> low_watermark s' =
               (if backend m (make_filter ms (low_watermark s) (Some hi)) PAGE_SIZE = []
                then low_watermark s else hi)"
proof -
  from assms have body: "tail_body lo ms fmt ds m s = (None, s')"
    by (simp add: tail_loop_append split: prod.splits option.splits)
  then obtain hi where hi: "astimezone lo (clock m) = Inr hi"
    by (cases "astimezone lo (clock m)") (auto simp: tail_body_def)
  let ?q = "backend m (make_filter ms (low_watermark s) (Some hi)) PAGE_SIZE"
  obtain r w where pl:
    "print_logs (backend m) ms (low_watermark s) (Some hi) fmt ds (sink s) = (r, w)"
    by (cases "print_logs (backend m) ms (low_watermark s) (Some hi) fmt ds (sink s)")
  from body hi pl obtain b where r: "r = Inr b"
    by (cases r) (auto simp: tail_body_def Let_def)
  from pl r have b: "b = (?q = [])"
    using print_logs_loop_returns [of fmt ds ?q True "sink s" b] by (simp add: print_logs_def)
  from body hi pl r b have
    "low_watermark s' = (if ?q = [] then low_watermark s else hi)"
    by (auto simp: tail_body_def Let_def split: option.splits if_splits)
  with hi show ?thesis by blast
qed

theorem tail_watermark_step_witness:
  "tail_loop ex_local [] line_format ex_dict_str [quiet_moment] ex_state = Looping ex_state
   \<and> tail_loop ex_local [] line_format ex_dict_str ([quiet_moment] @ [busy_moment]) ex_state
       = Looping \<lparr>low_watermark = ex_high, sink = ex_line @ [newline]\<rparr>
   \<and> astimezone ex_local (clock busy_moment) = Inr ex_high
   \<and> backend busy_moment (make_filter [] (low_watermark ex_state) (Some ex_high)) PAGE_SIZE
       = [Entry ex_entry]
   \<and> low_watermark \<lparr>low_watermark = ex_high, sink = ex_line @ [newline]\<rparr> = ex_high"
proof -
  have h1: "tail_loop ex_local [] line_format ex_dict_str [quiet_moment] ex_state = Looping ex_state"
    by (simp add: tail_body_quiet)
  have h2: "tail_loop ex_local [] line_format ex_dict_str ([quiet_moment] @ [busy_moment]) ex_state
       = Looping \<lparr>low_watermark = ex_high, sink = ex_line @ [newline]\<rparr>"
    by (simp add: tail_body_quiet tail_body_busy)
  have a: "astimezone ex_local (clock busy_moment) = Inr ex_high"
    by (simp add: busy_moment_def astimezone_ex_naive)
  have q: "backend busy_moment (make_filter [] (low_watermark ex_state) (Some ex_high)) PAGE_SIZE
             = [Entry ex_entry]"
    by (simp add: busy_moment_def one_entry_def)
  from tail_watermark_step [OF h1 h2] a q h1 h2 show ?thesis by simp
qed

section \<open>What the bounded query returns\<close>

text \<open>
  Claim C2, as stated, fails: the boolean \<^verbatim>\<open>print_logs\<close> returns is its local \<^verbatim>\<open>empty\<close>.
  A query without records returns \<open>True\<close>, a query with one record returns \<open>False\<close>.
\<close>

theorem print_logs_true_counterexample:
  "print_logs no_entries [''vm-1''] ex_from (Some ex_to) line_format ex_dict_str [] = (Inr True, [])
   \<and> no_entries (make_filter [''vm-1''] ex_from (Some ex_to)) PAGE_SIZE = []
   \<and> print_logs one_entry [''vm-1''] ex_from (Some ex_to) line_format ex_dict_str []
       = (Inr False, ex_line @ [newline])
   \<and> one_entry (make_filter [''vm-1''] ex_from (Some ex_to)) PAGE_SIZE = [Entry ex_entry]"
  by (simp add: print_logs_def no_entries_def one_entry_def line_format_ex_entry print_def py_str_def)

text \<open>
  Claim C2, amended. Whenever \<^verbatim>\<open>print_logs\<close> returns, the boolean it returns is true
  exactly when the query gave no record; and it does return, with that boolean, when
  the query hands over its entries without raising and the formatter returns on each.
\<close>

theorem print_logs_returns_empty:
  "(fst (print_logs client machines from_date to_date formatter dict_str outfile) = Inr b
      \<longrightarrow> b = (client (make_filter machines from_date to_date) PAGE_SIZE = []))
   \<and> (client (make_filter machines from_date to_date) PAGE_SIZE = map Entry es
        \<and> (\<forall>e\<in>set es. formatter e = Inr (p e))
      \<longrightarrow> fst (print_logs client machines from_date to_date formatter dict_str outfile)
            = Inr (es = []))"
proof (intro conjI impI)
  assume "fst (print_logs client machines from_date to_date formatter dict_str outfile) = Inr b"
  then show "b = (client (make_filter machines from_date to_date) PAGE_SIZE = [])"
    using print_logs_loop_returns
      [of formatter dict_str "client (make_filter machines from_date to_date) PAGE_SIZE" True outfile b]
    by (simp add: print_logs_def)
next
  assume "client (make_filter machines from_date to_date) PAGE_SIZE = map Entry es
        \<and> (\<forall>e\<in>set es. formatter e = Inr (p e))"
  then show "fst (print_logs client machines from_date to_date formatter dict_str outfile) = Inr (es = [])"
    using print_logs_loop_entries [of es formatter p dict_str True outfile]
    by (simp add: print_logs_def)
qed

theorem print_logs_returns_empty_witness:
  "one_entry (make_filter [] ex_from None) PAGE_SIZE = map Entry [ex_entry]
   \<and> line_format ex_entry = Inr (Text ex_line)
   \<and> fst (print_logs one_entry [] ex_from None line_format ex_dict_str []) = Inr False
   \<and> one_entry (make_filter [] ex_from None) PAGE_SIZE \<noteq> []"
proof -
  have q: "one_entry (make_filter [] ex_from None) PAGE_SIZE = map Entry [ex_entry]"
    by (simp add: one_entry_def)
  have f: "\<forall>e\<in>set [ex_entry]. line_format e = Inr ((\<lambda>e. Text ex_line) e)"
    by (simp add: line_format_ex_entry)
  from print_logs_returns_empty
    [of one_entry "[]" ex_from None line_format ex_dict_str "[]" False "[ex_entry]" "\<lambda>e. Text ex_line"]
    q f
  show ?thesis by (simp add: line_format_ex_entry)
qed


section \<open>Facts about the calendar\<close>










section \<open>Facts about local time\<close>









section \<open>Time zones\<close>












lemma main_peek:
  assumes "args_to_date args = None" "\<not> args_tail args"
    and "adjust_tz z (Some (args_from_date args)) (args_utc args) = Inr (Some f)"
    and "backend m (make_filter (args_machine args) f None) PAGE_SIZE
            = backend m' (make_filter (args_machine args) f None) PAGE_SIZE"
  shows "main z dict_str (m # trace) args io = main z dict_str (m' # trace') args io"
proof -
  have n: "adjust_tz z None (args_utc args) = Inr None" by (simp add: adjust_tz_def)
  show ?thesis
    unfolding main_def Let_def using assms n by (simp add: print_logs_def)
qed

text \<open>
  Claim C9. Whatever \<^verbatim>\<open>utc\<close> says, \<^verbatim>\<open>adjust_tz\<close> gives \<open>None\<close> back for \<open>None\<close>, without
  raising; the filter built from that result is the filter without upper bound,
  whose clauses stop at the lower-bound clause. In \<^verbatim>\<open>main\<close>: when \<^verbatim>\<open>--to-date\<close> is left
  out in peek mode, the run depends on the backend only through its answer to that
  filter.
\<close>

theorem adjust_tz_None:
  \<open>adjust_tz z None utc = Inr None
   \<and> map_sum id (make_filter machines from_date) (adjust_tz z None utc)
       = Inr (make_filter machines from_date None)
   \<and> map_sum id (filter_clauses machines from_date) (adjust_tz z None utc)
       = Inr ([''resource.type="gce_instance"'']
              @ (if machines \<noteq> []
                 then [''('' @ str_join '' OR '' (map instance_clause machines) @ '')''] else [])
              @ [''timestamp >= "'' @ isoformat from_date @ ''"''])
   \<and> (args_to_date args = None \<and> \<not> args_tail args
        \<and> adjust_tz z (Some (args_from_date args)) (args_utc args) = Inr (Some f)
        \<and> backend m (make_filter (args_machine args) f None) PAGE_SIZE
            = backend m' (make_filter (args_machine args) f None) PAGE_SIZE
      \<longrightarrow> main z dict_str (m # trace) args io = main z dict_str (m' # trace') args io)\<close>
proof (intro conjI impI)
  show n: "adjust_tz z None utc = Inr None" by (simp add: adjust_tz_def)
  show "map_sum id (make_filter machines from_date) (adjust_tz z None utc)
       = Inr (make_filter machines from_date None)" by (simp add: n)
  show \<open>map_sum id (filter_clauses machines from_date) (adjust_tz z None utc)
       = Inr ([''resource.type="gce_instance"'']
              @ (if machines \<noteq> []
                 then [''('' @ str_join '' OR '' (map instance_clause machines) @ '')''] else [])
              @ [''timestamp >= "'' @ isoformat from_date @ ''"''])\<close>
    by (simp add: adjust_tz_def filter_clauses_def)
next
  assume h: "args_to_date args = None \<and> \<not> args_tail args
        \<and> adjust_tz z (Some (args_from_date args)) (args_utc args) = Inr (Some f)
        \<and> backend m (make_filter (args_machine args) f None) PAGE_SIZE
            = backend m' (make_filter (args_machine args) f None) PAGE_SIZE"
  then show "main z dict_str (m # trace) args io = main z dict_str (m' # trace') args io"
    by (intro main_peek [of args z f m m']) simp_all
qed

theorem adjust_tz_None_witness:
  "args_to_date peek_args = None \<and> \<not> args_tail peek_args
   \<and> adjust_tz ex_local (Some (args_from_date peek_args)) (args_utc peek_args)
       = Inr (Some (ex_naive\<lparr>tzinfo := Some 0\<rparr>))
   \<and> backend busy_moment (make_filter (args_machine peek_args) (ex_naive\<lparr>tzinfo := Some 0\<rparr>) None) PAGE_SIZE
       = backend (busy_moment\<lparr>clock := ex_from\<rparr>)
           (make_filter (args_machine peek_args) (ex_naive\<lparr>tzinfo := Some 0\<rparr>) None) PAGE_SIZE
   \<and> main ex_local ex_dict_str [busy_moment] peek_args ex_io
       = main ex_local ex_dict_str [busy_moment\<lparr>clock := ex_from\<rparr>, quiet_moment] peek_args ex_io"
proof -
  have a: "adjust_tz ex_local (Some (args_from_date peek_args)) (args_utc peek_args)
       = Inr (Some (ex_naive\<lparr>tzinfo := Some 0\<rparr>))"
    by (simp add: adjust_tz_def peek_args_def ex_naive_def UTC_def)
  have b: "backend busy_moment (make_filter (args_machine peek_args) (ex_naive\<lparr>tzinfo := Some 0\<rparr>) None) PAGE_SIZE
       = backend (busy_moment\<lparr>clock := ex_from\<rparr>)
           (make_filter (args_machine peek_args) (ex_naive\<lparr>tzinfo := Some 0\<rparr>) None) PAGE_SIZE"
    by (simp add: busy_moment_def)
  have c: "args_to_date peek_args = None" "\<not> args_tail peek_args" by (simp_all add: peek_args_def)
  have "main ex_local ex_dict_str [busy_moment] peek_args ex_io
       = main ex_local ex_dict_str [busy_moment\<lparr>clock := ex_from\<rparr>, quiet_moment] peek_args ex_io"
    using adjust_tz_None [of ex_local True "[]" ex_from peek_args "ex_naive\<lparr>tzinfo := Some 0\<rparr>"
        busy_moment "busy_moment\<lparr>clock := ex_from\<rparr>" ex_dict_str "[]" ex_io "[quiet_moment]"]
      a b c by blast
  with a b c show ?thesis by blast
qed

section \<open>What the bounded query emits\<close>










section \<open>Interrupting the tail loop\<close>

lemma tail_stops:
  assumes "tail_loop lo ms fmt ds pre s0 = Looping s"
    and "tail_body lo ms fmt ds m s = (Some e, s')"
  shows "tail_loop lo ms fmt ds (pre @ m # post) s0 = Stopped e s'"
  using assms by (simp add: tail_loop_append)

lemma tail_body_interrupted_query:
  assumes "astimezone lo (clock m) = Inr hi"
    and "backend m (make_filter ms (low_watermark s) (Some hi)) PAGE_SIZE
             = map Entry es @ Raise err # rest"
    and "\<forall>e\<in>set es. fmt e = Inr (p e)"
  shows "tail_body lo ms fmt ds m s
           = (Some err, s\<lparr>sink := sink s @ concat (map (\<lambda>e. py_str ds (p e) @ [newline]) es)\<rparr>)"
  using assms print_logs_loop_raise [of es fmt p ds err rest True "sink s"]
  by (simp add: tail_body_def print_logs_def)

lemma tail_body_interrupted_sleep:
  assumes "astimezone lo (clock m) = Inr hi"
    and "backend m (make_filter ms (low_watermark s) (Some hi)) PAGE_SIZE = map Entry es"
    and "\<forall>e\<in>set es. fmt e = Inr (p e)"
    and "sleep m POLL_INTERVAL = Some err"
  shows "tail_body lo ms fmt ds m s
           = (Some err, \<lparr>low_watermark = (if es = [] then low_watermark s else hi),
                         sink = sink s @ concat (map (\<lambda>e. py_str ds (p e) @ [newline]) es)\<rparr>)"
  using assms print_logs_loop_entries [of es fmt p ds True "sink s"]
  by (simp add: tail_body_def print_logs_def)

lemma tail_body_completes:
  assumes "astimezone lo (clock m) = Inr hi"
    and "backend m (make_filter ms (low_watermark s) (Some hi)) PAGE_SIZE = map Entry es"
    and "\<forall>e\<in>set es. fmt e = Inr (p e)"
    and "sleep m POLL_INTERVAL = None"
  shows "tail_body lo ms fmt ds m s
           = (None, \<lparr>low_watermark = (if es = [] then low_watermark s else hi),
                      sink = sink s @ concat (map (\<lambda>e. py_str ds (p e) @ [newline]) es)\<rparr>)"
  using assms print_logs_loop_entries [of es fmt p ds True "sink s"]
  by (simp add: tail_body_def print_logs_def)

lemma tail_interrupted:
  assumes "tail_loop lo ms fmt ds pre \<lparr>low_watermark = from_date, sink = outfile\<rparr> = Looping s"
    and "tail_body lo ms fmt ds m s = (Some KeyboardInterrupt, s')"
  shows "tail lo (pre @ m # post) ms from_date fmt ds outfile stderr
           = Some (None, sink s',
                   stderr @ LIGHTRED_EX @ ''CTRL+C pressed. Aborting.'' @ RESET @ [newline])"
  using tail_stops [OF assms, of post] by (simp add: tail_def print_def py_str_def)

text \<open>
  Claim C7. Let the program run in tail mode, the adjustment of its two bounds
  return, the tail loop be going after the moments \<open>pre\<close>, and let
  \<^verbatim>\<open>KeyboardInterrupt\<close> leave the body of the loop in the next moment, wherever it was
  raised there (while the query was iterated, or during the sleep). Then \<^verbatim>\<open>tail\<close>
  returns without an exception, whatever moments would follow; it has written the
  notice, and nothing else, to the error stream; and the process ends with exit
  status 0.
\<close>

theorem interrupt_exits_cleanly:
  assumes "args_tail args"
    and "adjust_tz lo (Some (args_from_date args)) (args_utc args) = Inr (Some from_date)"
    and "adjust_tz lo (args_to_date args) (args_utc args) = Inr to_date"
    and "fmt = (if args_api args then api_format else line_format)"
    and "outfile = (case args_to_file args of None \<Rightarrow> sys_stdout io | Some path \<Rightarrow> [])"
    and "tail_loop lo (args_machine args) fmt ds pre \<lparr>low_watermark = from_date, sink = outfile\<rparr>
           = Looping s"
    and "tail_body lo (args_machine args) fmt ds m s = (Some KeyboardInterrupt, s')"
  shows "tail lo (pre @ m # post) (args_machine args) from_date fmt ds outfile (sys_stderr io)
           = Some (None, sink s',
                   sys_stderr io @ LIGHTRED_EX @ ''CTRL+C pressed. Aborting.'' @ RESET @ [newline])
       \<and> map_option (\<lambda>r. exit_status (fst r)) (main lo ds (pre @ m # post) args io) = Some 0
       \<and> map_option (\<lambda>r. sys_stderr (snd r)) (main lo ds (pre @ m # post) args io)
           = Some (sys_stderr io @ LIGHTRED_EX @ ''CTRL+C pressed. Aborting.'' @ RESET @ [newline])"
proof -
  have t: "tail lo (pre @ m # post) (args_machine args) from_date fmt ds outfile (sys_stderr io)
           = Some (None, sink s',
                   sys_stderr io @ LIGHTRED_EX @ ''CTRL+C pressed. Aborting.'' @ RESET @ [newline])"
    using assms(6,7) by (rule tail_interrupted)
  have m1: "map_option (\<lambda>r. exit_status (fst r)) (main lo ds (pre @ m # post) args io) = Some 0"
    unfolding main_def Let_def using assms(1-5) t
    by (simp add: exit_status_def split: option.splits)
  have m2: "map_option (\<lambda>r. sys_stderr (snd r)) (main lo ds (pre @ m # post) args io)
           = Some (sys_stderr io @ LIGHTRED_EX @ ''CTRL+C pressed. Aborting.'' @ RESET @ [newline])"
    unfolding main_def Let_def using assms(1-5) t
    by (simp split: option.splits)
  from t m1 m2 show ?thesis by blast
qed

lemma line_format_ok:
  "\<forall>e\<in>set [ex_entry]. line_format e = Inr ((\<lambda>e. Text ex_line) e)"
  by (simp add: line_format_ex_entry)

lemma clock_examples:
  "astimezone ex_local (clock busy_moment) = Inr ex_high"
  "astimezone ex_local (clock quiet_moment) = Inr ex_high"
  "astimezone ex_local (clock interrupted_moment) = Inr ex_high"
  "astimezone ex_local (clock interrupted_nap) = Inr ex_high"
  "astimezone ex_local (clock late_interrupt) = Inr ex_high"
  by (simp_all add: busy_moment_def quiet_moment_def interrupted_moment_def interrupted_nap_def
      late_interrupt_def astimezone_ex_naive)

theorem interrupt_exits_cleanly_witness:
  "args_tail tail_args
   \<and> adjust_tz ex_local (Some (args_from_date tail_args)) (args_utc tail_args)
       = Inr (Some (ex_naive\<lparr>tzinfo := Some 0\<rparr>))
   \<and> adjust_tz ex_local (args_to_date tail_args) (args_utc tail_args) = Inr None
   \<and> tail_loop ex_local (args_machine tail_args) line_format ex_dict_str [busy_moment]
        \<lparr>low_watermark = ex_naive\<lparr>tzinfo := Some 0\<rparr>, sink = []\<rparr>
       = Looping \<lparr>low_watermark = ex_high, sink = ex_line @ [newline]\<rparr>
   \<and> tail_body ex_local (args_machine tail_args) line_format ex_dict_str interrupted_nap
        \<lparr>low_watermark = ex_high, sink = ex_line @ [newline]\<rparr>
       = (Some KeyboardInterrupt, \<lparr>low_watermark = ex_high, sink = ex_line @ [newline]\<rparr>)
   \<and> tail ex_local ([busy_moment] @ interrupted_nap # [quiet_moment]) (args_machine tail_args)
        (ex_naive\<lparr>tzinfo := Some 0\<rparr>) line_format ex_dict_str [] []
       = Some (None, ex_line @ [newline],
               LIGHTRED_EX @ ''CTRL+C pressed. Aborting.'' @ RESET @ [newline])
   \<and> map_option (\<lambda>r. exit_status (fst r))
        (main ex_local ex_dict_str ([busy_moment] @ interrupted_nap # [quiet_moment]) tail_args ex_io)
       = Some 0
   \<and> map_option (\<lambda>r. sys_stderr (snd r))
        (main ex_local ex_dict_str ([busy_moment] @ interrupted_nap # [quiet_moment]) tail_args ex_io)
       = Some (LIGHTRED_EX @ ''CTRL+C pressed. Aborting.'' @ RESET @ [newline])"
proof -
  let ?s0 = "\<lparr>low_watermark = ex_naive\<lparr>tzinfo := Some 0\<rparr>, sink = []\<rparr>"
  let ?s1 = "\<lparr>low_watermark = ex_high, sink = ex_line @ [newline]\<rparr>"
  have a1: "args_tail tail_args" by (simp add: tail_args_def peek_args_def)
  have a2: "adjust_tz ex_local (Some (args_from_date tail_args)) (args_utc tail_args)
       = Inr (Some (ex_naive\<lparr>tzinfo := Some 0\<rparr>))"
    by (simp add: adjust_tz_def tail_args_def peek_args_def ex_naive_def UTC_def)
  have a2': "adjust_tz ex_local (args_to_date tail_args) (args_utc tail_args) = Inr None"
    by (simp add: adjust_tz_def tail_args_def peek_args_def)
  have a3: "line_format = (if args_api tail_args then api_format else line_format)"
    by (simp add: tail_args_def peek_args_def)
  have a4: "[] = (case args_to_file tail_args of None \<Rightarrow> sys_stdout ex_io | Some path \<Rightarrow> [])"
    by (simp add: tail_args_def peek_args_def ex_io_def)
  have b: "tail_body ex_local (args_machine tail_args) line_format ex_dict_str busy_moment ?s0
             = (None, ?s1)"
    using tail_body_completes [OF clock_examples(1), where ms = "args_machine tail_args"
        and s = ?s0 and es = "[ex_entry]" and fmt = line_format and p = "\<lambda>e. Text ex_line"
        and ds = ex_dict_str] line_format_ok
    by (simp add: busy_moment_def one_entry_def never_interrupted_def py_str_def)
  have a5: "tail_loop ex_local (args_machine tail_args) line_format ex_dict_str [busy_moment] ?s0
              = Looping ?s1"
    by (simp add: b)
  have a6: "tail_body ex_local (args_machine tail_args) line_format ex_dict_str interrupted_nap ?s1
              = (Some KeyboardInterrupt, ?s1)"
    using tail_body_interrupted_sleep [OF clock_examples(4), where ms = "args_machine tail_args"
        and s = ?s1 and es = "[]" and fmt = line_format and p = "\<lambda>e. Text ex_line"
        and err = KeyboardInterrupt and ds = ex_dict_str]
    by (simp add: interrupted_nap_def no_entries_def interrupted_sleep_def)
  have e: "sys_stderr ex_io = []" by (simp add: ex_io_def)
  from interrupt_exits_cleanly [OF a1 a2 a2' a3 a4 a5 a6, of "[quiet_moment]"] a1 a2 a2' a5 a6 e
  show ?thesis by simp
qed

section \<open>Where an interrupt takes effect\<close>

text \<open>
  Claim C8, as stated, fails: \<^verbatim>\<open>tail\<close> has no means to put an interrupt off. Its
  \<^verbatim>\<open>try\<close> encloses the whole \<^verbatim>\<open>while True\<close> loop, \<^verbatim>\<open>print_logs\<close> catches
  nothing, and \<^verbatim>\<open>KeyboardInterrupt\<close> is raised wherever the thread is when the signal
  comes. When it is raised while the query is iterated, after the first of the
  records the query had to give, the second record is never emitted: the sink holds
  one line and the notice is printed.
\<close>

theorem interrupt_mid_query_counterexample:
  "astimezone ex_local (clock interrupted_moment) = Inr ex_high
   \<and> backend interrupted_moment (make_filter [''vm-1''] ex_from (Some ex_high)) PAGE_SIZE
       = [Entry ex_entry, Raise KeyboardInterrupt, Entry ex_entry2]
   \<and> tail ex_local [interrupted_moment] [''vm-1''] ex_from line_format ex_dict_str [] []
       = Some (None, ex_line @ [newline],
               LIGHTRED_EX @ ''CTRL+C pressed. Aborting.'' @ RESET @ [newline])"
proof -
  let ?s0 = "\<lparr>low_watermark = ex_from, sink = []\<rparr>"
  have q: "backend interrupted_moment (make_filter [''vm-1''] (low_watermark ?s0) (Some ex_high))
     PAGE_SIZE = map Entry [ex_entry] @ Raise KeyboardInterrupt # [Entry ex_entry2]"
    by (simp add: interrupted_moment_def interrupted_query_def)
  have b: "tail_body ex_local [''vm-1''] line_format ex_dict_str interrupted_moment ?s0
             = (Some KeyboardInterrupt, ?s0\<lparr>sink := ex_line @ [newline]\<rparr>)"
    using tail_body_interrupted_query [OF clock_examples(3) q line_format_ok, of ex_dict_str]
    by (simp add: py_str_def)
  have l: "tail_loop ex_local [''vm-1''] line_format ex_dict_str [] ?s0 = Looping ?s0" by simp
  from tail_interrupted [OF l b, of "[]" "[]"] q clock_examples(3) show ?thesis by simp
qed

text \<open>
  Claim C8, amended. In tail mode the interrupt takes effect where it is raised, in
  the query as well as in the sleep. Raised while the query is iterated, after the
  records \<open>es\<close> were handed over, it ends the loop with the records \<open>es\<close> emitted and
  none of those the query had still to give (\<open>rest\<close>); raised during the sleep, it
  ends the loop after all records of the query were emitted. In both cases \<^verbatim>\<open>tail\<close>
  prints the notice and returns. (\<open>hi\<close> and \<open>hi'\<close> are the high watermarks the two
  iterations captured.)
\<close>

theorem interrupt_takes_effect_where_raised:
  assumes "tail_loop lo ms fmt ds pre \<lparr>low_watermark = from_date, sink = outfile\<rparr> = Looping s"
    and "\<forall>e\<in>set es. fmt e = Inr (p e)"
  shows "(astimezone lo (clock m) = Inr hi
          \<and> backend m (make_filter ms (low_watermark s) (Some hi)) PAGE_SIZE
              = map Entry es @ Raise KeyboardInterrupt # rest
          \<longrightarrow> tail lo (pre @ m # post) ms from_date fmt ds outfile stderr
              = Some (None, sink s @ concat (map (\<lambda>e. py_str ds (p e) @ [newline]) es),
                      stderr @ LIGHTRED_EX @ ''CTRL+C pressed. Aborting.'' @ RESET @ [newline]))
       \<and> (astimezone lo (clock m') = Inr hi'
          \<and> backend m' (make_filter ms (low_watermark s) (Some hi')) PAGE_SIZE = map Entry es
          \<and> sleep m' POLL_INTERVAL = Some KeyboardInterrupt
          \<longrightarrow> tail lo (pre @ m' # post) ms from_date fmt ds outfile stderr
              = Some (None, sink s @ concat (map (\<lambda>e. py_str ds (p e) @ [newline]) es),
                      stderr @ LIGHTRED_EX @ ''CTRL+C pressed. Aborting.'' @ RESET @ [newline]))"
proof (intro conjI impI)
  assume h: "astimezone lo (clock m) = Inr hi
          \<and> backend m (make_filter ms (low_watermark s) (Some hi)) PAGE_SIZE
              = map Entry es @ Raise KeyboardInterrupt # rest"
  then have c: "astimezone lo (clock m) = Inr hi"
    and q: "backend m (make_filter ms (low_watermark s) (Some hi)) PAGE_SIZE
              = map Entry es @ Raise KeyboardInterrupt # rest" by simp_all
  show "tail lo (pre @ m # post) ms from_date fmt ds outfile stderr
              = Some (None, sink s @ concat (map (\<lambda>e. py_str ds (p e) @ [newline]) es),
                      stderr @ LIGHTRED_EX @ ''CTRL+C pressed. Aborting.'' @ RESET @ [newline])"
    using tail_interrupted [OF assms(1) tail_body_interrupted_query [OF c q assms(2), of ds],
        of post stderr]
    by simp
next
  assume h: "astimezone lo (clock m') = Inr hi'
          \<and> backend m' (make_filter ms (low_watermark s) (Some hi')) PAGE_SIZE = map Entry es
          \<and> sleep m' POLL_INTERVAL = Some KeyboardInterrupt"
  then have c: "astimezone lo (clock m') = Inr hi'"
    and q: "backend m' (make_filter ms (low_watermark s) (Some hi')) PAGE_SIZE = map Entry es"
    and z: "sleep m' POLL_INTERVAL = Some KeyboardInterrupt" by simp_all
  show "tail lo (pre @ m' # post) ms from_date fmt ds outfile stderr
              = Some (None, sink s @ concat (map (\<lambda>e. py_str ds (p e) @ [newline]) es),
                      stderr @ LIGHTRED_EX @ ''CTRL+C pressed. Aborting.'' @ RESET @ [newline])"
    using tail_interrupted [OF assms(1) tail_body_interrupted_sleep [OF c q assms(2) z, of ds],
        of post stderr]
    by simp
qed

theorem interrupt_takes_effect_where_raised_witness:
  "tail_loop ex_local [''vm-1''] line_format ex_dict_str [busy_moment]
        \<lparr>low_watermark = ex_from, sink = []\<rparr>
       = Looping \<lparr>low_watermark = ex_high, sink = ex_line @ [newline]\<rparr>
   \<and> line_format ex_entry = Inr (Text ex_line)
   \<and> astimezone ex_local (clock interrupted_moment) = Inr ex_high
   \<and> backend interrupted_moment (make_filter [''vm-1''] ex_high (Some ex_high)) PAGE_SIZE
       = map Entry [ex_entry] @ Raise KeyboardInterrupt # [Entry ex_entry2]
   \<and> tail ex_local ([busy_moment] @ interrupted_moment # [quiet_moment]) [''vm-1''] ex_from
        line_format ex_dict_str [] []
       = Some (None, ex_line @ [newline] @ ex_line @ [newline],
               LIGHTRED_EX @ ''CTRL+C pressed. Aborting.'' @ RESET @ [newline])
   \<and> astimezone ex_local (clock late_interrupt) = Inr ex_high
   \<and> backend late_interrupt (make_filter [''vm-1''] ex_high (Some ex_high)) PAGE_SIZE
       = map Entry [ex_entry]
   \<and> sleep late_interrupt POLL_INTERVAL = Some KeyboardInterrupt
   \<and> tail ex_local ([busy_moment] @ late_interrupt # [quiet_moment]) [''vm-1''] ex_from
        line_format ex_dict_str [] []
       = Some (None, ex_line @ [newline] @ ex_line @ [newline],
               LIGHTRED_EX @ ''CTRL+C pressed. Aborting.'' @ RESET @ [newline])"
proof -
  let ?s0 = "\<lparr>low_watermark = ex_from, sink = []\<rparr>"
  let ?s1 = "\<lparr>low_watermark = ex_high, sink = ex_line @ [newline]\<rparr>"
  have b: "tail_body ex_local [''vm-1''] line_format ex_dict_str busy_moment ?s0 = (None, ?s1)"
    using tail_body_completes [OF clock_examples(1), where ms = "[''vm-1'']" and s = ?s0
        and es = "[ex_entry]" and fmt = line_format and p = "\<lambda>e. Text ex_line"
        and ds = ex_dict_str] line_format_ok
    by (simp add: busy_moment_def one_entry_def never_interrupted_def py_str_def)
  have a1: "tail_loop ex_local [''vm-1''] line_format ex_dict_str [busy_moment] ?s0 = Looping ?s1"
    by (simp add: b)
  have a2: "line_format ex_entry = Inr (Text ex_line)"
    by (rule line_format_ex_entry)
  have q1: "backend interrupted_moment (make_filter [''vm-1''] ex_high (Some ex_high)) PAGE_SIZE
       = map Entry [ex_entry] @ Raise KeyboardInterrupt # [Entry ex_entry2]"
    by (simp add: interrupted_moment_def interrupted_query_def)
  have q2: "backend late_interrupt (make_filter [''vm-1''] ex_high (Some ex_high)) PAGE_SIZE
       = map Entry [ex_entry]"
    by (simp add: late_interrupt_def one_entry_def)
  have z: "sleep late_interrupt POLL_INTERVAL = Some KeyboardInterrupt"
    by (simp add: late_interrupt_def interrupted_sleep_def)
  from interrupt_takes_effect_where_raised [OF a1 line_format_ok,
      where m = interrupted_moment and m' = late_interrupt and rest = "[Entry ex_entry2]"
        and post = "[quiet_moment]" and stderr = "[]" and hi = ex_high and hi' = ex_high]
    a1 a2 q1 q2 z clock_examples(3,5)
  show ?thesis by (simp add: py_str_def)
qed

section \<open>The text of the filter\<close>

lemma digit_in: "digit k \<in> set ''0123456789''"
  unfolding digit_def by (rule nth_mem) simp

lemma set_dec:
  assumes "\<And>k. digit k \<in> D"
  shows "set (dec n) \<subseteq> D"
proof (induction n rule: dec.induct)
  case (1 n)
  show ?case
  proof (cases "n < 10")
    case True
    then have "dec n = [digit n]" by (subst dec.simps) simp
    then show ?thesis using assms by simp
  next
    case False
    then have "dec n = dec (n div 10) @ [digit (n mod 10)]" by (subst dec.simps) simp
    then show ?thesis using 1 [OF False] assms by simp
  qed
qed

lemma set_zero_pad:
  assumes "\<And>k. digit k \<in> D" and "CHR ''0'' \<in> D"
  shows "set (zero_pad w n) \<subseteq> D"
  using set_dec [of D n, OF assms(1)] assms(2) by (auto simp: zero_pad_def)

lemma set_format_offset:
  assumes "\<And>k. digit k \<in> D" and "CHR ''0'' \<in> D" and "CHR ''-'' \<in> D" and "CHR ''+'' \<in> D"
    and "CHR '':'' \<in> D"
  shows "set (format_offset off) \<subseteq> D"
proof -
  have z: "\<And>w n x. x \<in> set (zero_pad w n) \<Longrightarrow> x \<in> D"
    using set_zero_pad [of D, OF assms(1,2)] by blast
  show ?thesis
    using assms(3,4,5) by (auto simp: format_offset_def Let_def dest: z)
qed

lemma set_isoformat:
  assumes "\<And>k. digit k \<in> D" and "CHR ''0'' \<in> D" and "CHR ''-'' \<in> D" and "CHR ''+'' \<in> D"
    and "CHR '':'' \<in> D" and "CHR ''T'' \<in> D" and "CHR ''.'' \<in> D"
  shows "set (isoformat d) \<subseteq> D"
proof -
  have z: "\<And>w n x. x \<in> set (zero_pad w n) \<Longrightarrow> x \<in> D"
    using set_zero_pad [of D, OF assms(1,2)] by blast
  have o: "\<And>off x. x \<in> set (format_offset off) \<Longrightarrow> x \<in> D"
    using set_format_offset [of D, OF assms(1,2,3,4,5)] by blast
  show ?thesis
    using assms(3,5,6,7) by (auto simp: isoformat_def split: option.splits dest: z o)
qed

lemma isoformat_plain:
  "CHR ''O'' \<notin> set (isoformat d)" "CHR ''('' \<notin> set (isoformat d)"
proof -
  have d: "\<And>k. digit k \<in> - {CHR ''O'', CHR ''(''}"
  proof -
    fix k
    have "CHR ''O'' \<notin> set ''0123456789''" "CHR ''('' \<notin> set ''0123456789''" by simp_all
    with digit_in [of k] show "digit k \<in> - {CHR ''O'', CHR ''(''}" by auto
  qed
  have "set (isoformat d) \<subseteq> - {CHR ''O'', CHR ''(''}"
    by (rule set_isoformat [OF d]) simp_all
  then show "CHR ''O'' \<notin> set (isoformat d)" "CHR ''('' \<notin> set (isoformat d)" by auto
qed

lemma str_join_Cons: "str_join sep (x # xs) = x @ (if xs = [] then [] else sep @ str_join sep xs)"
  by (cases xs) simp_all

lemma sublist_str_join: "c \<in> set cs \<Longrightarrow> sublist c (str_join sep cs)"
proof (induction sep cs rule: str_join.induct)
  case (1 sep)
  then show ?case by simp
next
  case (2 sep x)
  then show ?case by simp
next
  case (3 sep x y ys)
  show ?case
  proof (cases "c = x")
    case True
    then show ?thesis by simp
  next
    case False
    with 3 have "sublist c (str_join sep (y # ys))" by simp
    then obtain ps ss where "str_join sep (y # ys) = ps @ c @ ss"
      by (auto simp: sublist_def)
    then have "str_join sep (x # y # ys) = (x @ sep @ ps) @ c @ ss" by simp
    then show ?thesis unfolding sublist_def by blast
  qed
qed

lemma filter_clauses_eq:
  \<open>filter_clauses S a b =
     [''resource.type="gce_instance"'']
     @ (if S \<noteq> [] then [''('' @ str_join '' OR '' (map instance_clause S) @ '')''] else [])
     @ [''timestamp >= "'' @ isoformat a @ ''"'']
     @ (case b of Some t \<Rightarrow> [''timestamp <= "'' @ isoformat t @ ''"''] | None \<Rightarrow> [])\<close>
  by (simp add: filter_clauses_def split: option.splits)

lemma make_filter_eq:
  \<open>make_filter S a b =
     ''resource.type="gce_instance"''
     @ (if S = [] then [] else '' AND ('' @ str_join '' OR '' (map instance_clause S) @ '')'')
     @ '' AND timestamp >= "'' @ isoformat a @ ''"''
     @ (case b of None \<Rightarrow> [] | Some t \<Rightarrow> '' AND timestamp <= "'' @ isoformat t @ ''"'')\<close>
  unfolding make_filter_def filter_clauses_eq
  by (cases "S = []"; cases b) simp_all

lemma make_filter_instance:
  assumes "n \<in> set S"
  shows "sublist (instance_clause n) (make_filter S a b)"
proof -
  from assms have ne: "S \<noteq> []" by auto
  from assms have "sublist (instance_clause n) (str_join '' OR '' (map instance_clause S))"
    by (intro sublist_str_join) simp
  then obtain ps ss where "str_join '' OR '' (map instance_clause S) = ps @ instance_clause n @ ss"
    by (auto simp: sublist_def)
  then have \<open>make_filter S a b =
      (''resource.type="gce_instance" AND ('' @ ps) @ instance_clause n
      @ (ss @ '')'' @ '' AND timestamp >= "'' @ isoformat a @ ''"''
         @ (case b of None \<Rightarrow> [] | Some t \<Rightarrow> '' AND timestamp <= "'' @ isoformat t @ ''"''))\<close>
    using ne by (simp add: make_filter_eq)
  then show ?thesis unfolding sublist_def by blast
qed

lemma make_filter_no_group:
  "CHR ''('' \<notin> set (make_filter [] a b)" "CHR ''O'' \<notin> set (make_filter [] a b)"
  by (simp_all add: make_filter_eq isoformat_plain split: option.splits)

lemma make_filter_no_OR: "\<not> sublist '' OR '' (make_filter [] a b)"
proof
  assume "sublist '' OR '' (make_filter [] a b)"
  then have "set '' OR '' \<subseteq> set (make_filter [] a b)" by (rule set_mono_sublist)
  then show False using make_filter_no_group(2) [of a b] by simp
qed

lemma make_filter_upper:
  "(\<exists>c\<in>set (filter_clauses S a b). prefix ''timestamp <= '' c) = (b \<noteq> None)"
  by (cases b) (simp_all add: filter_clauses_eq)

lemma make_filter_example:
  \<open>make_filter [''vm-1''] ex_from (Some ex_to) =
     ''resource.type="gce_instance" AND (resource.labels.instance_id="vm-1") AND timestamp >= "2023-01-01T00:00:00+00:00" AND timestamp <= "2023-01-01T01:00:00+00:00"''\<close>
  by (simp add: make_filter_def filter_clauses_def instance_clause_def isoformat_def ex_from_def
      ex_to_def zero_pad_def dec.simps digit_def format_offset_def)

text \<open>
  Claim C3. The filter is the fixed resource-type clause, then, when \<open>S\<close> is not
  empty, the parenthesised group of the instance clauses of \<open>S\<close> joined by \<^verbatim>\<open>OR\<close>,
  then the lower-bound clause for \<open>a\<close>, then, when \<open>b\<close> is given, the upper-bound
  clause for it, all joined by \<^verbatim>\<open>AND\<close>. So the filter contains the instance clause
  of every name in \<open>S\<close>; for an empty \<open>S\<close> it has no parenthesis and no \<^verbatim>\<open>OR\<close>; it
  has a clause for an upper bound exactly when \<open>b\<close> is given; and the filter of the
  example is the text the specification gives.
\<close>

theorem make_filter_contract:
  \<open>make_filter S a b =
      ''resource.type="gce_instance"''
      @ (if S = [] then [] else '' AND ('' @ str_join '' OR '' (map instance_clause S) @ '')'')
      @ '' AND timestamp >= "'' @ isoformat a @ ''"''
      @ (case b of None \<Rightarrow> [] | Some t \<Rightarrow> '' AND timestamp <= "'' @ isoformat t @ ''"'')
   \<and> (\<forall>n\<in>set S. sublist (''resource.labels.instance_id="'' @ n @ ''"'') (make_filter S a b))
   \<and> CHR ''('' \<notin> set (make_filter [] a b)
   \<and> \<not> sublist '' OR '' (make_filter [] a b)
   \<and> ((\<exists>c\<in>set (filter_clauses S a b). prefix ''timestamp <= '' c) = (b \<noteq> None))
   \<and> make_filter [''vm-1''] ex_from (Some ex_to) =
       ''resource.type="gce_instance" AND (resource.labels.instance_id="vm-1") AND timestamp >= "2023-01-01T00:00:00+00:00" AND timestamp <= "2023-01-01T01:00:00+00:00"''\<close>
proof (intro conjI ballI)
  show \<open>make_filter S a b =
      ''resource.type="gce_instance"''
      @ (if S = [] then [] else '' AND ('' @ str_join '' OR '' (map instance_clause S) @ '')'')
      @ '' AND timestamp >= "'' @ isoformat a @ ''"''
      @ (case b of None \<Rightarrow> [] | Some t \<Rightarrow> '' AND timestamp <= "'' @ isoformat t @ ''"'')\<close>
    by (rule make_filter_eq)
next
  fix n assume "n \<in> set S"
  then show \<open>sublist (''resource.labels.instance_id="'' @ n @ ''"'') (make_filter S a b)\<close>
    using make_filter_instance [of n S a b] by (simp add: instance_clause_def)
next
  show "CHR ''('' \<notin> set (make_filter [] a b)" by (rule make_filter_no_group(1))
next
  show "\<not> sublist '' OR '' (make_filter [] a b)" by (rule make_filter_no_OR)
next
  show "(\<exists>c\<in>set (filter_clauses S a b). prefix ''timestamp <= '' c) = (b \<noteq> None)"
    by (rule make_filter_upper)
next
  show \<open>make_filter [''vm-1''] ex_from (Some ex_to) =
       ''resource.type="gce_instance" AND (resource.labels.instance_id="vm-1") AND timestamp >= "2023-01-01T00:00:00+00:00" AND timestamp <= "2023-01-01T01:00:00+00:00"''\<close>
    by (rule make_filter_example)
qed

theorem make_filter_contract_witness:
  \<open>sublist ''resource.labels.instance_id="vm-2"''
      (make_filter [''vm-1'', ''vm-2''] ex_from None)
   \<and> make_filter [''vm-1'', ''vm-2''] ex_from None =
       ''resource.type="gce_instance" AND (resource.labels.instance_id="vm-1" OR resource.labels.instance_id="vm-2") AND timestamp >= "2023-01-01T00:00:00+00:00"''\<close>
proof -
  note c = make_filter_contract [of "[''vm-1'', ''vm-2'']" ex_from None]
  from c have 1: \<open>\<forall>n\<in>set [''vm-1'', ''vm-2''].
      sublist (''resource.labels.instance_id="'' @ n @ ''"'') (make_filter [''vm-1'', ''vm-2''] ex_from None)\<close>
    by blast
  from c have \<open>make_filter [''vm-1'', ''vm-2''] ex_from None =
      ''resource.type="gce_instance"''
      @ (if [''vm-1'', ''vm-2''] = ([] :: string list) then []
         else '' AND ('' @ str_join '' OR '' (map instance_clause [''vm-1'', ''vm-2'']) @ '')'')
      @ '' AND timestamp >= "'' @ isoformat ex_from @ ''"''
      @ (case (None :: datetime option) of None \<Rightarrow> [] | Some t \<Rightarrow> '' AND timestamp <= "'' @ isoformat t @ ''"'')\<close>
    by blast
  then have 2: \<open>make_filter [''vm-1'', ''vm-2''] ex_from None =
       ''resource.type="gce_instance" AND (resource.labels.instance_id="vm-1" OR resource.labels.instance_id="vm-2") AND timestamp >= "2023-01-01T00:00:00+00:00"''\<close>
    by (simp add: instance_clause_def isoformat_def ex_from_def zero_pad_def dec.simps digit_def
        format_offset_def)
  from 1 have \<open>sublist ''resource.labels.instance_id="vm-2"''
      (make_filter [''vm-1'', ''vm-2''] ex_from None)\<close> by simp
  with 2 show ?thesis by blast
qed

section \<open>Machine names in the filter\<close>

lemma count_list_append: "count_list (xs @ ys) c = count_list xs c + count_list ys c"
  by (induction xs) simp_all

text \<open>
  Claim C10. \<^verbatim>\<open>make_filter\<close> puts every machine name into its clause as it is,
  between two double quotes: whatever names stand before and after it in the list,
  the filter contains the clause with the name unchanged, and the filter of a single
  name is the fixed text around that name. A clause therefore holds two double
  quotes more than the name does: the name \<^verbatim>\<open>a"b\<close> gives a clause with three, its
  quoted value closed after \<^verbatim>\<open>a\<close>.
\<close>

theorem make_filter_verbatim:
  \<open>sublist (''resource.labels.instance_id="'' @ n @ ''"'') (make_filter (xs @ n # ys) a b)
   \<and> make_filter [n] a None =
       ''resource.type="gce_instance" AND (resource.labels.instance_id="'' @ n
       @ ''") AND timestamp >= "'' @ isoformat a @ ''"''
   \<and> count_list (instance_clause n) (CHR ''"'') = 2 + count_list n (CHR ''"'')
   \<and> make_filter [''a"b''] ex_from None =
       ''resource.type="gce_instance" AND (resource.labels.instance_id="a"b") AND timestamp >= "2023-01-01T00:00:00+00:00"''
   \<and> count_list (instance_clause ''a"b'') (CHR ''"'') = 3\<close>
proof (intro conjI)
  show \<open>sublist (''resource.labels.instance_id="'' @ n @ ''"'') (make_filter (xs @ n # ys) a b)\<close>
    using make_filter_instance [of n "xs @ n # ys" a b] by (simp add: instance_clause_def)
next
  show \<open>make_filter [n] a None =
       ''resource.type="gce_instance" AND (resource.labels.instance_id="'' @ n
       @ ''") AND timestamp >= "'' @ isoformat a @ ''"''\<close>
    by (simp add: make_filter_eq instance_clause_def)
next
  show \<open>count_list (instance_clause n) (CHR ''"'') = 2 + count_list n (CHR ''"'')\<close>
    by (simp add: instance_clause_def count_list_append)
next
  show \<open>make_filter [''a"b''] ex_from None =
       ''resource.type="gce_instance" AND (resource.labels.instance_id="a"b") AND timestamp >= "2023-01-01T00:00:00+00:00"''\<close>
    by (simp add: make_filter_eq instance_clause_def isoformat_def ex_from_def zero_pad_def dec.simps
        digit_def format_offset_def)
next
  show \<open>count_list (instance_clause ''a"b'') (CHR ''"'') = 3\<close>
    by (simp add: instance_clause_def)
qed

section \<open>The shape of a formatted line\<close>

lemma visible_text_plain: "ESC \<notin> set xs \<Longrightarrow> visible_text (xs @ ys) = xs @ visible_text ys"
  by (induction xs) auto

lemma visible_text_colors:
  "visible_text (LIGHTGREEN_EX @ ys) = visible_text ys"
  "visible_text (LIGHTCYAN_EX @ ys) = visible_text ys"
  "visible_text (BRIGHT @ ys) = visible_text ys"
  "visible_text (RESET_ALL @ ys) = visible_text ys"
  by (simp_all add: LIGHTGREEN_EX_def LIGHTCYAN_EX_def BRIGHT_def RESET_ALL_def)

lemma visible_text_Nil: "ESC \<notin> set xs \<Longrightarrow> visible_text xs = xs"
  using visible_text_plain [of xs "[]"] by simp

lemma newline_colors:
  "newline \<notin> set LIGHTGREEN_EX" "newline \<notin> set LIGHTCYAN_EX" "newline \<notin> set BRIGHT"
  "newline \<notin> set RESET_ALL"
  by (simp_all add: LIGHTGREEN_EX_def LIGHTCYAN_EX_def BRIGHT_def RESET_ALL_def ESC_def newline_def)

lemma line_format_exposed:
  assumes "resource e = Some r" and "labels r = Some l" and "l ''instance_id'' = Some i"
    and "timestamp e = Some t" and "severity e = Some s" and "textPayload e = Some p"
  shows "line_format e
           = Inr (Text (LIGHTGREEN_EX @ i @ LIGHTCYAN_EX @ '' ['' @ t @ ''] '' @ BRIGHT
                        @ ''('' @ s @ ''): '' @ RESET_ALL @ p))"
  using assms by (simp add: line_format_def getitem_def)

lemma visible_text_line:
  assumes "ESC \<notin> set (i @ t @ s @ p)"
  shows "visible_text (LIGHTGREEN_EX @ i @ LIGHTCYAN_EX @ '' ['' @ t @ ''] '' @ BRIGHT
                        @ ''('' @ s @ ''): '' @ RESET_ALL @ p)
           = i @ '' ['' @ t @ ''] ('' @ s @ ''): '' @ p"
proof -
  from assms have i: "ESC \<notin> set i" and t: "ESC \<notin> set t" and s: "ESC \<notin> set s" and p: "ESC \<notin> set p"
    by simp_all
  have b1: "ESC \<notin> set '' [''" and b2: "ESC \<notin> set ''] ''" and b3: "ESC \<notin> set ''(''"
    and b4: "ESC \<notin> set ''): ''"
    by (simp_all add: ESC_def)
  have "visible_text (LIGHTGREEN_EX @ i @ LIGHTCYAN_EX @ '' ['' @ t @ ''] '' @ BRIGHT
                        @ ''('' @ s @ ''): '' @ RESET_ALL @ p)
          = i @ visible_text (LIGHTCYAN_EX @ '' ['' @ t @ ''] '' @ BRIGHT
                        @ ''('' @ s @ ''): '' @ RESET_ALL @ p)"
    by (simp only: visible_text_colors visible_text_plain [OF i])
  also have "visible_text (LIGHTCYAN_EX @ '' ['' @ t @ ''] '' @ BRIGHT
                        @ ''('' @ s @ ''): '' @ RESET_ALL @ p)
          = '' ['' @ t @ ''] '' @ visible_text (BRIGHT @ ''('' @ s @ ''): '' @ RESET_ALL @ p)"
    by (simp only: visible_text_colors visible_text_plain [OF b1] visible_text_plain [OF t]
        visible_text_plain [OF b2])
  also have "visible_text (BRIGHT @ ''('' @ s @ ''): '' @ RESET_ALL @ p)
          = ''('' @ s @ ''): '' @ p"
    by (simp only: visible_text_colors visible_text_plain [OF b3] visible_text_plain [OF s]
        visible_text_plain [OF b4] visible_text_Nil [OF p])
  finally show ?thesis by simp
qed

text \<open>
  Claim C6, as stated, fails in its ``single line'': \<^verbatim>\<open>line_format\<close> puts the fields in
  as they are, and a text payload of two lines gives a text of two lines.
\<close>

theorem line_format_two_lines_counterexample:
  "line_format ex_traceback_entry
     = Inr (Text (LIGHTGREEN_EX @ ''vm-1'' @ LIGHTCYAN_EX @ '' [2023-01-01T00:00:05Z] '' @ BRIGHT
                  @ ''(INFO): '' @ RESET_ALL @ ''Traceback:'' @ [newline] @ ''  File x''))
   \<and> count_list (LIGHTGREEN_EX @ ''vm-1'' @ LIGHTCYAN_EX @ '' [2023-01-01T00:00:05Z] '' @ BRIGHT
                  @ ''(INFO): '' @ RESET_ALL @ ''Traceback:'' @ [newline] @ ''  File x'') newline = 1
   \<and> count_list (print ex_dict_str (Text (LIGHTGREEN_EX @ ''vm-1'' @ LIGHTCYAN_EX
                  @ '' [2023-01-01T00:00:05Z] '' @ BRIGHT @ ''(INFO): '' @ RESET_ALL
                  @ ''Traceback:'' @ [newline] @ ''  File x'')) []) newline = 2"
  by (simp add: line_format_def getitem_def ex_traceback_entry_def ex_entry_def print_def py_str_def
      LIGHTGREEN_EX_def LIGHTCYAN_EX_def BRIGHT_def RESET_ALL_def ESC_def newline_def)

text \<open>
  Claim C6, amended. For a record that exposes instance identifier, timestamp,
  severity and text payload, \<^verbatim>\<open>line_format\<close> returns one text: the instance name after
  the light green sequence, the bracketed timestamp after the light cyan one, the
  severity in parentheses after the bright one, and the payload after the reset of
  all styles. The two colors differ. When no field holds an escape character, the
  visible text is \<^verbatim>\<open><instance> [<timestamp>] (<severity>): <payload>\<close>; and the text is
  a single line exactly when no field holds a line break.
\<close>

theorem line_format_shape:
  assumes "resource e = Some r" and "labels r = Some l" and "l ''instance_id'' = Some i"
    and "timestamp e = Some t" and "severity e = Some s" and "textPayload e = Some p"
  shows "line_format e
           = Inr (Text (LIGHTGREEN_EX @ i @ LIGHTCYAN_EX @ '' ['' @ t @ ''] '' @ BRIGHT
                        @ ''('' @ s @ ''): '' @ RESET_ALL @ p))
         \<and> LIGHTGREEN_EX \<noteq> LIGHTCYAN_EX
         \<and> (ESC \<notin> set (i @ t @ s @ p) \<longrightarrow>
              visible_text (LIGHTGREEN_EX @ i @ LIGHTCYAN_EX @ '' ['' @ t @ ''] '' @ BRIGHT
                            @ ''('' @ s @ ''): '' @ RESET_ALL @ p)
                = i @ '' ['' @ t @ ''] ('' @ s @ ''): '' @ p)
         \<and> (newline \<notin> set (LIGHTGREEN_EX @ i @ LIGHTCYAN_EX @ '' ['' @ t @ ''] '' @ BRIGHT
                             @ ''('' @ s @ ''): '' @ RESET_ALL @ p))
             = (newline \<notin> set (i @ t @ s @ p))"
proof (intro conjI impI)
  show "line_format e
           = Inr (Text (LIGHTGREEN_EX @ i @ LIGHTCYAN_EX @ '' ['' @ t @ ''] '' @ BRIGHT
                        @ ''('' @ s @ ''): '' @ RESET_ALL @ p))"
    using assms by (rule line_format_exposed)
next
  show "LIGHTGREEN_EX \<noteq> LIGHTCYAN_EX" by (simp add: LIGHTGREEN_EX_def LIGHTCYAN_EX_def)
next
  assume "ESC \<notin> set (i @ t @ s @ p)"
  then show "visible_text (LIGHTGREEN_EX @ i @ LIGHTCYAN_EX @ '' ['' @ t @ ''] '' @ BRIGHT
                            @ ''('' @ s @ ''): '' @ RESET_ALL @ p)
                = i @ '' ['' @ t @ ''] ('' @ s @ ''): '' @ p"
    by (rule visible_text_line)
next
  show "(newline \<notin> set (LIGHTGREEN_EX @ i @ LIGHTCYAN_EX @ '' ['' @ t @ ''] '' @ BRIGHT
                             @ ''('' @ s @ ''): '' @ RESET_ALL @ p))
             = (newline \<notin> set (i @ t @ s @ p))"
    using newline_colors by (simp add: newline_def)
qed

theorem line_format_shape_witness:
  "resource ex_entry = Some \<lparr>labels = Some [''instance_id'' \<mapsto> ''vm-1'']\<rparr>
   \<and> timestamp ex_entry = Some ''2023-01-01T00:00:05Z''
   \<and> severity ex_entry = Some ''INFO''
   \<and> textPayload ex_entry = Some ''hello world''
   \<and> ESC \<notin> set (''vm-1'' @ ''2023-01-01T00:00:05Z'' @ ''INFO'' @ ''hello world'')
   \<and> line_format ex_entry
       = Inr (Text (LIGHTGREEN_EX @ ''vm-1'' @ LIGHTCYAN_EX @ '' [2023-01-01T00:00:05Z] '' @ BRIGHT
                    @ ''(INFO): '' @ RESET_ALL @ ''hello world''))
   \<and> visible_text (LIGHTGREEN_EX @ ''vm-1'' @ LIGHTCYAN_EX @ '' [2023-01-01T00:00:05Z] '' @ BRIGHT
                    @ ''(INFO): '' @ RESET_ALL @ ''hello world'')
       = ''vm-1 [2023-01-01T00:00:05Z] (INFO): hello world''
   \<and> newline \<notin> set (LIGHTGREEN_EX @ ''vm-1'' @ LIGHTCYAN_EX @ '' [2023-01-01T00:00:05Z] '' @ BRIGHT
                    @ ''(INFO): '' @ RESET_ALL @ ''hello world'')"
proof -
  have a1: "resource ex_entry = Some \<lparr>labels = Some [''instance_id'' \<mapsto> ''vm-1'']\<rparr>"
    and a4: "timestamp ex_entry = Some ''2023-01-01T00:00:05Z''"
    and a5: "severity ex_entry = Some ''INFO''"
    and a6: "textPayload ex_entry = Some ''hello world''"
    by (simp_all add: ex_entry_def)
  have a2: "labels \<lparr>labels = Some [''instance_id'' \<mapsto> ''vm-1'']\<rparr> = Some [''instance_id'' \<mapsto> ''vm-1'']"
    by simp
  have a3: "[''instance_id'' \<mapsto> ''vm-1''] ''instance_id'' = Some ''vm-1''" by simp
  have e: "ESC \<notin> set (''vm-1'' @ ''2023-01-01T00:00:05Z'' @ ''INFO'' @ ''hello world'')"
    by (simp add: ESC_def)
  have n: "newline \<notin> set (''vm-1'' @ ''2023-01-01T00:00:05Z'' @ ''INFO'' @ ''hello world'')"
    by (simp add: newline_def)
  from line_format_shape [OF a1 a2 a3 a4 a5 a6] a1 a4 a5 a6 e n
  show ?thesis by simp
qed

end
